theory Spec2Isabelle
  imports Main
begin

section \<open>Texts and characters\<close>

text \<open>
  The service is a Python program (\<^verbatim>\<open>src/app/main.py\<close>). A Python \<^verbatim>\<open>str\<close> is a
  sequence of code points. The model covers the texts whose code points lie in
  U+0000..U+00FF: a text is a \<^typ>\<open>string\<close>, and each \<^typ>\<open>char\<close> stands for the code
  point with the same number. The character classes below are those of Python 3 on
  that range.
\<close>

definition code_point :: "char \<Rightarrow> nat" where
  "code_point c = of_char c"

text \<open>\<^verbatim>\<open>str.isspace\<close>, the separator set of \<^verbatim>\<open>str.split()\<close> and \<^verbatim>\<open>str.strip()\<close>.\<close>

definition isspace :: "char \<Rightarrow> bool" where
  "isspace c =
     (let n = code_point c
      in (9 \<le> n \<and> n \<le> 13) \<or> (28 \<le> n \<and> n \<le> 32) \<or> n = 133 \<or> n = 160)"

text \<open>\<^verbatim>\<open>str.lower\<close>: A-Z and the upper-case letters of U+00C0..U+00DE move up by 32.\<close>

definition lower_char :: "char \<Rightarrow> char" where
  "lower_char c =
     (let n = code_point c
      in if (65 \<le> n \<and> n \<le> 90) \<or> (192 \<le> n \<and> n \<le> 222 \<and> n \<noteq> 215)
         then char_of (n + 32) else c)"

definition lower :: "string \<Rightarrow> string" where
  "lower s = map lower_char s"

definition strip :: "string \<Rightarrow> string" where
  "strip s = rev (dropWhile isspace (rev (dropWhile isspace s)))"

text \<open>\<^verbatim>\<open>s.split()\<close>: the maximal runs of non-whitespace characters, in order.\<close>

fun split_run :: "string \<Rightarrow> string \<Rightarrow> string list" where
  "split_run cur [] = (if cur = [] then [] else [rev cur])"
| "split_run cur (c # cs) =
     (if isspace c then (if cur = [] then split_run [] cs else rev cur # split_run [] cs)
      else split_run (c # cur) cs)"

definition split :: "string \<Rightarrow> string list" where
  "split s = split_run [] s"

text \<open>The regular-expression classes \<^verbatim>\<open>\d\<close> and \<^verbatim>\<open>\w\<close> on text patterns.\<close>

definition is_digit :: "char \<Rightarrow> bool" where
  "is_digit c = (let n = code_point c in 48 \<le> n \<and> n \<le> 57)"

definition is_word_char :: "char \<Rightarrow> bool" where
  "is_word_char c =
     (let n = code_point c
      in (48 \<le> n \<and> n \<le> 57) \<or> (65 \<le> n \<and> n \<le> 90) \<or> n = 95 \<or> (97 \<le> n \<and> n \<le> 122)
         \<or> n = 170 \<or> n = 178 \<or> n = 179 \<or> n = 181 \<or> n = 185 \<or> n = 186
         \<or> (188 \<le> n \<and> n \<le> 190) \<or> (192 \<le> n \<and> n \<le> 214)
         \<or> (216 \<le> n \<and> n \<le> 246) \<or> 248 \<le> n)"

definition is_hex_char :: "char \<Rightarrow> bool" where
  "is_hex_char c =
     (let n = code_point c
      in (48 \<le> n \<and> n \<le> 57) \<or> (65 \<le> n \<and> n \<le> 70) \<or> (97 \<le> n \<and> n \<le> 102))"

text \<open>\<^verbatim>\<open>pat in s\<close>: \<open>pat\<close> occurs in \<open>s\<close> as a contiguous substring.\<close>

fun starts_with :: "string \<Rightarrow> string \<Rightarrow> bool" where
  "starts_with [] s = True"
| "starts_with (p # ps) [] = False"
| "starts_with (p # ps) (c # cs) = (p = c \<and> starts_with ps cs)"

fun contains :: "string \<Rightarrow> string \<Rightarrow> bool" where
  "contains pat [] = (pat = [])"
| "contains pat (c # cs) = (starts_with pat (c # cs) \<or> contains pat cs)"

text \<open>
  \<^verbatim>\<open>re.search\<close>: the match at the leftmost position where the pattern matches;
  \<open>m\<close> is the pattern anchored at the start of its argument.
\<close>

fun search :: "(string \<Rightarrow> 'a option) \<Rightarrow> string \<Rightarrow> 'a option" where
  "search m [] = m []"
| "search m (c # cs) = (case m (c # cs) of Some x \<Rightarrow> Some x | None \<Rightarrow> search m cs)"

section \<open>SHA-256\<close>

text \<open>
  \<^verbatim>\<open>hashlib.sha256\<close> is SHA-256 of FIPS 180-4. A 32-bit word is the list of its bits,
  least significant bit first; addition is modulo \<open>2 ^ 32\<close> (the carry out of the last
  bit is dropped).
\<close>

type_synonym word32 = "bool list"

definition xor32 :: "word32 \<Rightarrow> word32 \<Rightarrow> word32" where
  "xor32 x y = map2 (\<lambda>a b. a \<noteq> b) x y"

definition and32 :: "word32 \<Rightarrow> word32 \<Rightarrow> word32" where
  "and32 x y = map2 (\<lambda>a b. a \<and> b) x y"

definition not32 :: "word32 \<Rightarrow> word32" where
  "not32 x = map Not x"

fun add_carry :: "bool \<Rightarrow> word32 \<Rightarrow> word32 \<Rightarrow> word32" where
  "add_carry c (a # x) (b # y) =
     ((a \<noteq> b) \<noteq> c) # add_carry ((a \<and> b) \<or> (c \<and> (a \<noteq> b))) x y"
| "add_carry c _ _ = []"

definition add32 :: "word32 \<Rightarrow> word32 \<Rightarrow> word32" where
  "add32 x y = add_carry False x y"

definition rotr :: "nat \<Rightarrow> word32 \<Rightarrow> word32" where
  "rotr n x = drop n x @ take n x"

definition shr :: "nat \<Rightarrow> word32 \<Rightarrow> word32" where
  "shr n x = drop n x @ replicate n False"

definition Ch :: "word32 \<Rightarrow> word32 \<Rightarrow> word32 \<Rightarrow> word32" where
  "Ch x y z = xor32 (and32 x y) (and32 (not32 x) z)"

definition Maj :: "word32 \<Rightarrow> word32 \<Rightarrow> word32 \<Rightarrow> word32" where
  "Maj x y z = xor32 (xor32 (and32 x y) (and32 x z)) (and32 y z)"

definition Sigma0 :: "word32 \<Rightarrow> word32" where
  "Sigma0 x = xor32 (xor32 (rotr 2 x) (rotr 13 x)) (rotr 22 x)"

definition Sigma1 :: "word32 \<Rightarrow> word32" where
  "Sigma1 x = xor32 (xor32 (rotr 6 x) (rotr 11 x)) (rotr 25 x)"

definition sigma0 :: "word32 \<Rightarrow> word32" where
  "sigma0 x = xor32 (xor32 (rotr 7 x) (rotr 18 x)) (shr 3 x)"

definition sigma1 :: "word32 \<Rightarrow> word32" where
  "sigma1 x = xor32 (xor32 (rotr 17 x) (rotr 19 x)) (shr 10 x)"

text \<open>Hexadecimal digits and their four bits, least significant first.\<close>

definition nibble_of_hex :: "char \<Rightarrow> bool list" where
  "nibble_of_hex c =
     (if c = CHR ''0'' then [False, False, False, False]
      else if c = CHR ''1'' then [True, False, False, False]
      else if c = CHR ''2'' then [False, True, False, False]
      else if c = CHR ''3'' then [True, True, False, False]
      else if c = CHR ''4'' then [False, False, True, False]
      else if c = CHR ''5'' then [True, False, True, False]
      else if c = CHR ''6'' then [False, True, True, False]
      else if c = CHR ''7'' then [True, True, True, False]
      else if c = CHR ''8'' then [False, False, False, True]
      else if c = CHR ''9'' then [True, False, False, True]
      else if c = CHR ''a'' then [False, True, False, True]
      else if c = CHR ''b'' then [True, True, False, True]
      else if c = CHR ''c'' then [False, False, True, True]
      else if c = CHR ''d'' then [True, False, True, True]
      else if c = CHR ''e'' then [False, True, True, True]
      else [True, True, True, True])"

fun hex_of_nibble :: "bool list \<Rightarrow> char" where
  "hex_of_nibble [b0, b1, b2, b3] =
     (if b3 then (if b2 then (if b1 then (if b0 then CHR ''f'' else CHR ''e'')
                              else (if b0 then CHR ''d'' else CHR ''c''))
                   else (if b1 then (if b0 then CHR ''b'' else CHR ''a'')
                              else (if b0 then CHR ''9'' else CHR ''8'')))
      else (if b2 then (if b1 then (if b0 then CHR ''7'' else CHR ''6'')
                              else (if b0 then CHR ''5'' else CHR ''4''))
                   else (if b1 then (if b0 then CHR ''3'' else CHR ''2'')
                              else (if b0 then CHR ''1'' else CHR ''0''))))"
| "hex_of_nibble _ = CHR ''0''"

definition word_of_hex :: "string \<Rightarrow> word32" where
  "word_of_hex s = concat (map nibble_of_hex (rev s))"

text \<open>The word as eight lower-case hexadecimal digits, most significant first.\<close>

definition hex32 :: "word32 \<Rightarrow> string" where
  "hex32 w = map (\<lambda>i. hex_of_nibble (take 4 (drop (4 * i) w))) [7, 6, 5, 4, 3, 2, 1, 0]"

definition K256 :: "word32 list" where
  "K256 = map word_of_hex [
     ''428a2f98'', ''71374491'', ''b5c0fbcf'', ''e9b5dba5'',
     ''3956c25b'', ''59f111f1'', ''923f82a4'', ''ab1c5ed5'',
     ''d807aa98'', ''12835b01'', ''243185be'', ''550c7dc3'',
     ''72be5d74'', ''80deb1fe'', ''9bdc06a7'', ''c19bf174'',
     ''e49b69c1'', ''efbe4786'', ''0fc19dc6'', ''240ca1cc'',
     ''2de92c6f'', ''4a7484aa'', ''5cb0a9dc'', ''76f988da'',
     ''983e5152'', ''a831c66d'', ''b00327c8'', ''bf597fc7'',
     ''c6e00bf3'', ''d5a79147'', ''06ca6351'', ''14292967'',
     ''27b70a85'', ''2e1b2138'', ''4d2c6dfc'', ''53380d13'',
     ''650a7354'', ''766a0abb'', ''81c2c92e'', ''92722c85'',
     ''a2bfe8a1'', ''a81a664b'', ''c24b8b70'', ''c76c51a3'',
     ''d192e819'', ''d6990624'', ''f40e3585'', ''106aa070'',
     ''19a4c116'', ''1e376c08'', ''2748774c'', ''34b0bcb5'',
     ''391c0cb3'', ''4ed8aa4a'', ''5b9cca4f'', ''682e6ff3'',
     ''748f82ee'', ''78a5636f'', ''84c87814'', ''8cc70208'',
     ''90befffa'', ''a4506ceb'', ''bef9a3f7'', ''c67178f2'']"

type_synonym hash_state =
  "word32 \<times> word32 \<times> word32 \<times> word32 \<times> word32 \<times> word32 \<times> word32 \<times> word32"

definition H_init :: hash_state where
  "H_init =
     (word_of_hex ''6a09e667'', word_of_hex ''bb67ae85'', word_of_hex ''3c6ef372'',
      word_of_hex ''a54ff53a'', word_of_hex ''510e527f'', word_of_hex ''9b05688c'',
      word_of_hex ''1f83d9ab'', word_of_hex ''5be0cd19'')"

text \<open>
  The message schedule, most recent word first: \<open>W\<^sub>t\<close> from \<open>W\<^sub>t\<^sub>-\<^sub>2\<close>, \<open>W\<^sub>t\<^sub>-\<^sub>7\<close>,
  \<open>W\<^sub>t\<^sub>-\<^sub>1\<^sub>5\<close> and \<open>W\<^sub>t\<^sub>-\<^sub>1\<^sub>6\<close>.
\<close>

definition next_w :: "word32 list \<Rightarrow> word32" where
  "next_w ws = add32 (add32 (sigma1 (ws ! 1)) (ws ! 6)) (add32 (sigma0 (ws ! 14)) (ws ! 15))"

fun schedule :: "nat \<Rightarrow> word32 list \<Rightarrow> word32 list" where
  "schedule 0 ws = ws"
| "schedule (Suc n) ws = schedule n (next_w ws # ws)"

fun round256 :: "hash_state \<Rightarrow> word32 \<times> word32 \<Rightarrow> hash_state" where
  "round256 (a, b, c, d, e, f, g, h) (k, w) =
     (let t1 = add32 (add32 (add32 h (Sigma1 e)) (add32 (Ch e f g) k)) w;
          t2 = add32 (Sigma0 a) (Maj a b c)
      in (add32 t1 t2, a, b, c, add32 d t1, e, f, g))"

fun add_state :: "hash_state \<Rightarrow> hash_state \<Rightarrow> hash_state" where
  "add_state (a, b, c, d, e, f, g, h) (a', b', c', d', e', f', g', h') =
     (add32 a a', add32 b b', add32 c c', add32 d d',
      add32 e e', add32 f f', add32 g g', add32 h h')"

text \<open>A block is 512 message bits in transmission order (most significant bit first).\<close>

fun be_words :: "bool list \<Rightarrow> word32 list" where
  "be_words [] = []"
| "be_words (b # bs) = rev (take 32 (b # bs)) # be_words (drop 32 (b # bs))"

definition compress :: "hash_state \<Rightarrow> bool list \<Rightarrow> hash_state" where
  "compress hs block =
     (let ws = rev (schedule 48 (rev (be_words block)))
      in add_state hs (foldl round256 hs (zip K256 ws)))"

fun bits_of_nat :: "nat \<Rightarrow> nat \<Rightarrow> bool list" where
  "bits_of_nat 0 n = []"
| "bits_of_nat (Suc k) n = bits_of_nat k (n div 2) @ [odd n]"

definition pad :: "bool list \<Rightarrow> bool list" where
  "pad m = m @ [True] @ replicate ((447 + 512 - length m mod 512) mod 512) False
             @ bits_of_nat 64 (length m)"

fun blocks :: "bool list \<Rightarrow> bool list list" where
  "blocks [] = []"
| "blocks (b # bs) = take 512 (b # bs) # blocks (drop 512 (b # bs))"

definition sha256 :: "bool list \<Rightarrow> hash_state" where
  "sha256 m = foldl compress H_init (blocks (pad m))"

fun hexdigest :: "hash_state \<Rightarrow> string" where
  "hexdigest (a, b, c, d, e, f, g, h) =
     hex32 a @ hex32 b @ hex32 c @ hex32 d @ hex32 e @ hex32 f @ hex32 g @ hex32 h"

text \<open>
  \<^verbatim>\<open>s.encode('utf-8')\<close> on the modelled range: one byte below U+0080, two bytes from
  U+0080 to U+00FF; each byte most significant bit first.
\<close>

fun utf8_char :: "char \<Rightarrow> bool list" where
  "utf8_char (Char b0 b1 b2 b3 b4 b5 b6 b7) =
     (if b7 then [True, True, False, False, False, False, b7, b6,
                  True, False, b5, b4, b3, b2, b1, b0]
      else [b7, b6, b5, b4, b3, b2, b1, b0])"

definition encode_utf8 :: "string \<Rightarrow> bool list" where
  "encode_utf8 s = concat (map utf8_char s)"

section \<open>The analyzer\<close>

definition compute_sha256 :: "string \<Rightarrow> string" where
  "compute_sha256 s = hexdigest (sha256 (encode_utf8 s))"

text \<open>
  The property dictionary of \<^verbatim>\<open>analyze_string\<close>. The frequency dictionary keeps its
  keys in insertion order, as a Python \<^verbatim>\<open>dict\<close> does: it is an association list with
  one entry per key.
\<close>

type_synonym freq_map = "(char \<times> nat) list"

record properties =
  prop_length :: nat
  is_palindrome :: bool
  unique_characters :: nat
  word_count :: nat
  sha256_hash :: string
  character_frequency_map :: freq_map

text \<open>\<^verbatim>\<open>freq.get(ch, 0)\<close> and \<^verbatim>\<open>freq[ch] = n\<close>.\<close>

definition dict_get :: "freq_map \<Rightarrow> char \<Rightarrow> nat \<Rightarrow> nat" where
  "dict_get d k dflt = (case map_of d k of None \<Rightarrow> dflt | Some n \<Rightarrow> n)"

fun dict_set :: "freq_map \<Rightarrow> char \<Rightarrow> nat \<Rightarrow> freq_map" where
  "dict_set [] k n = [(k, n)]"
| "dict_set ((k', n') # d) k n = (if k' = k then (k, n) # d else (k', n') # dict_set d k n)"

definition count_chars :: "string \<Rightarrow> freq_map" where
  "count_chars s = foldl (\<lambda>freq ch. dict_set freq ch (dict_get freq ch 0 + 1)) [] s"

definition analyze_string :: "string \<Rightarrow> properties" where
  "analyze_string s =
     \<lparr> prop_length = length s,
       is_palindrome = (lower s = rev (lower s)),
       unique_characters = card (set s),
       word_count = length (split s),
       sha256_hash = compute_sha256 s,
       character_frequency_map = count_chars s \<rparr>"

section \<open>The record store\<close>

text \<open>
  The table \<^verbatim>\<open>strings\<close> of the SQLite database, as the list of its rows in rowid
  order: a full scan enumerates them in this order and an insert appends. The column
  \<^verbatim>\<open>id\<close> is the primary key. The properties are stored as JSON text and parsed on
  every read; the model stores them as they are.
\<close>

record string_record =
  rec_id :: string
  rec_value :: string
  rec_properties :: properties
  created_at :: string

type_synonym db = "string_record list"

datatype db_error = IntegrityError

definition db_insert :: "string \<Rightarrow> string \<Rightarrow> properties \<Rightarrow> string \<Rightarrow> db \<Rightarrow> db_error + db" where
  "db_insert i v props t d =
     (if i \<in> rec_id ` set d then Inl IntegrityError
      else Inr (d @ [\<lparr> rec_id = i, rec_value = v, rec_properties = props, created_at = t \<rparr>]))"

definition db_get_by_id :: "string \<Rightarrow> db \<Rightarrow> string_record option" where
  "db_get_by_id i d = find (\<lambda>r. rec_id r = i) d"

definition db_get_by_value :: "string \<Rightarrow> db \<Rightarrow> string_record option" where
  "db_get_by_value v d = find (\<lambda>r. rec_value r = v) d"

text \<open>The number of deleted rows and the table after the delete.\<close>

definition db_delete_by_id :: "string \<Rightarrow> db \<Rightarrow> nat \<times> db" where
  "db_delete_by_id i d = (length (filter (\<lambda>r. rec_id r = i) d), filter (\<lambda>r. rec_id r \<noteq> i) d)"

definition db_query_all :: "db \<Rightarrow> string_record list" where
  "db_query_all d = d"

section \<open>The endpoints\<close>

text \<open>
  An endpoint takes the table and returns its response, or the \<^verbatim>\<open>HTTPException\<close> it
  raises (status code and detail), with the table it leaves behind when it writes.
\<close>

datatype http_error = HTTPException nat string

definition DuplicateRecord :: http_error where
  "DuplicateRecord = HTTPException 409 ''String already exists in the system''"

definition NotFound :: http_error where
  "NotFound = HTTPException 404 ''String does not exist in the system''"

text \<open>
  The field \<^verbatim>\<open>value\<close> of the request body has type \<^verbatim>\<open>Any\<close>: a JSON string or some other
  JSON value. The request model always has the field, so the first check of
  \<^verbatim>\<open>create_string\<close> never fires. The clock reading is an argument.
\<close>

datatype request_value = Str string | NotStr

definition create_string ::
  "string \<Rightarrow> request_value \<Rightarrow> db \<Rightarrow> (http_error + string_record) \<times> db" where
  \<open>create_string now req d =
     (case req of
        NotStr \<Rightarrow> (Inl (HTTPException 422 ''"value" must be a string''), d)
      | Str v \<Rightarrow>
          (let props = analyze_string v; i = sha256_hash props
           in case db_get_by_id i d of
                Some existing \<Rightarrow> (Inl DuplicateRecord, d)
              | None \<Rightarrow>
                  (case db_insert i v props now d of
                     Inl e \<Rightarrow> (Inl (HTTPException 500 ''Failed to persist string''), d)
                   | Inr d' \<Rightarrow>
                       (Inr \<lparr> rec_id = i, rec_value = v, rec_properties = props,
                              created_at = now \<rparr>, d'))))\<close>

text \<open>\<^verbatim>\<open>re.fullmatch(r"[A-Fa-f0-9]{64}", s)\<close>\<close>

definition is_sha256_hex :: "string \<Rightarrow> bool" where
  "is_sha256_hex s = (length s = 64 \<and> list_all is_hex_char s)"

definition get_string :: "string \<Rightarrow> db \<Rightarrow> http_error + string_record" where
  "get_string string_value d =
     (if is_sha256_hex string_value then
        (case db_get_by_id string_value d of None \<Rightarrow> Inl NotFound | Some item \<Rightarrow> Inr item)
      else
        (case db_get_by_value string_value d of None \<Rightarrow> Inl NotFound | Some item \<Rightarrow> Inr item))"

definition delete_string :: "string \<Rightarrow> db \<Rightarrow> (http_error + unit) \<times> db" where
  "delete_string string_value d =
     (if is_sha256_hex string_value then
        (case db_delete_by_id string_value d of
           (changes, d') \<Rightarrow> if changes = 0 then (Inl NotFound, d') else (Inr (), d'))
      else
        (case db_get_by_value string_value d of
           None \<Rightarrow> (Inl NotFound, d)
         | Some item \<Rightarrow>
             (case db_delete_by_id (rec_id item) d of
                (changes, d') \<Rightarrow> if changes = 0 then (Inl NotFound, d') else (Inr (), d'))))"

text \<open>
  The five optional filters: the query parameters of \<^verbatim>\<open>list_strings\<close> and the
  dictionary \<^verbatim>\<open>parse_nl_query\<close> builds. An absent parameter or key is \<open>None\<close>.
\<close>

record filters =
  f_is_palindrome :: "bool option"
  f_min_length :: "int option"
  f_max_length :: "int option"
  f_word_count :: "int option"
  f_contains_character :: "string option"

definition no_filters :: filters where
  "no_filters = \<lparr> f_is_palindrome = None, f_min_length = None, f_max_length = None,
                  f_word_count = None, f_contains_character = None \<rparr>"

text \<open>\<^verbatim>\<open>key in freq\<close> for a text \<open>key\<close>: the keys of the dictionary are single characters.\<close>

definition in_dict :: "string \<Rightarrow> freq_map \<Rightarrow> bool" where
  "in_dict key d = (case key of [c] \<Rightarrow> c \<in> fst ` set d | _ \<Rightarrow> False)"

definition matches :: "filters \<Rightarrow> string_record \<Rightarrow> bool" where
  "matches q item =
     (let p = rec_properties item
      in if f_is_palindrome q \<noteq> None \<and> Some (is_palindrome p) \<noteq> f_is_palindrome q then False
         else if (case f_min_length q of None \<Rightarrow> False | Some m \<Rightarrow> int (prop_length p) < m)
           then False
         else if (case f_max_length q of None \<Rightarrow> False | Some m \<Rightarrow> int (prop_length p) > m)
           then False
         else if f_word_count q \<noteq> None \<and> Some (int (word_count p)) \<noteq> f_word_count q then False
         else if (case f_contains_character q of None \<Rightarrow> False
                  | Some c \<Rightarrow> \<not> in_dict c (character_frequency_map p))
           then False
         else True)"

record list_response =
  data :: "string_record list"
  count :: nat
  filters_applied :: filters

definition list_strings :: "filters \<Rightarrow> db \<Rightarrow> list_response" where
  "list_strings q d =
     (let all_items = db_query_all d;
          data = filter (matches q) all_items
      in \<lparr> data = data, count = length data, filters_applied = q \<rparr>)"

subsection \<open>Natural-language filtering\<close>

text \<open>
  \<^verbatim>\<open>filter_by_nl\<close> has its own copy of the local function \<^verbatim>\<open>matches\<close>, which tests
  the keys of the parsed dictionary as \<^verbatim>\<open>list_strings\<close> tests its parameters; on
  \<^typ>\<open>filters\<close> the two copies are the same function.

  The three regular expressions, anchored: what group 1 captures.
\<close>

definition match_longer :: "string \<Rightarrow> string option" where
  "match_longer s =
     (if starts_with ''longer than '' s then
        (let ds = takeWhile is_digit (drop 12 s) in if ds = [] then None else Some ds)
      else None)"

definition match_longer_characters :: "string \<Rightarrow> string option" where
  "match_longer_characters s =
     (if starts_with ''longer than '' s then
        (let ds = takeWhile is_digit (drop 12 s)
         in if ds \<noteq> [] \<and> starts_with '' characters'' (dropWhile is_digit (drop 12 s))
            then Some ds else None)
      else None)"

definition match_letter :: "string \<Rightarrow> string option" where
  "match_letter s =
     (if starts_with ''containing the letter '' s then
        (case drop 22 s of [] \<Rightarrow> None | c # cs \<Rightarrow> if is_word_char c then Some [c] else None)
      else None)"

text \<open>\<^verbatim>\<open>int\<close> on a run of decimal digits.\<close>

definition digit_value :: "char \<Rightarrow> nat" where
  "digit_value c = code_point c - 48"

definition int_of_digits :: "string \<Rightarrow> int" where
  "int_of_digits ds = int (foldl (\<lambda>n c. 10 * n + digit_value c) 0 ds)"

datatype value_error = ValueError string

text \<open>
  The dictionary \<^verbatim>\<open>filters\<close> of \<^verbatim>\<open>parse_nl_query\<close> before its final emptiness check:
  the eight conditional assignments in the order of the source.
\<close>

definition nl_filters :: "string \<Rightarrow> filters" where
  "nl_filters q =
     (let ql = lower (strip q);
          f0 = no_filters;
          f1 = (if contains ''single word'' ql \<or> contains ''single-word'' ql
                then f0\<lparr>f_word_count := Some 1\<rparr> else f0);
          f2 = (if contains ''palindrom'' ql then f1\<lparr>f_is_palindrome := Some True\<rparr> else f1);
          f3 = (case search match_longer ql of
                  Some ds \<Rightarrow> f2\<lparr>f_min_length := Some (int_of_digits ds + 1)\<rparr> | None \<Rightarrow> f2);
          f4 = (case search match_longer_characters ql of
                  Some ds \<Rightarrow> f3\<lparr>f_min_length := Some (int_of_digits ds + 1)\<rparr> | None \<Rightarrow> f3);
          f5 = (case search match_letter ql of
                  Some c \<Rightarrow> f4\<lparr>f_contains_character := Some c\<rparr> | None \<Rightarrow> f4);
          f6 = (if contains ''containing the letter z'' ql \<or> contains ''contain the letter z'' ql
                   \<or> contains ''containing z'' ql
                then f5\<lparr>f_contains_character := Some ''z''\<rparr> else f5);
          f7 = (if contains ''first vowel'' ql then f6\<lparr>f_contains_character := Some ''a''\<rparr>
                else f6);
          f8 = (case search match_letter ql of
                  Some c \<Rightarrow> f7\<lparr>f_contains_character := Some c\<rparr> | None \<Rightarrow> f7)
      in f8)"

definition parse_nl_query :: "string \<Rightarrow> value_error + filters" where
  "parse_nl_query q =
     (let fs = nl_filters q
      in if fs = no_filters then Inl (ValueError ''Unable to parse natural language query'')
         else Inr fs)"

record interpreted_query =
  original :: string
  parsed_filters :: filters

record nl_response =
  nl_data :: "string_record list"
  nl_count :: nat
  interpreted :: interpreted_query

definition filter_by_nl :: "string \<Rightarrow> db \<Rightarrow> http_error + nl_response" where
  "filter_by_nl query d =
     (case parse_nl_query query of
        Inl (ValueError e) \<Rightarrow> Inl (HTTPException 400 e)
      | Inr parsed \<Rightarrow>
          (let all_items = db_query_all d;
               data = filter (matches parsed) all_items
           in Inr \<lparr> nl_data = data, nl_count = length data,
                    interpreted = \<lparr> original = query, parsed_filters = parsed \<rparr> \<rparr>))"

section \<open>Specification-level notions\<close>

text \<open>A digit of \<^verbatim>\<open>hexdigest()\<close>: lower-case hexadecimal.\<close>

definition is_lower_hex_char :: "char \<Rightarrow> bool" where
  "is_lower_hex_char c = (c \<in> set ''0123456789abcdef'')"

text \<open>The row \<^verbatim>\<open>create_string\<close> inserts, and returns, for the text \<open>v\<close> at time \<open>now\<close>.\<close>

definition stored_record :: "string \<Rightarrow> string \<Rightarrow> string_record" where
  "stored_record now v =
     \<lparr> rec_id = compute_sha256 v, rec_value = v, rec_properties = analyze_string v,
       created_at = now \<rparr>"

text \<open>
  The invariant of the table: the ids are pairwise distinct (the primary key) and every
  row is keyed by the hash of its value.
\<close>

definition store_ok :: "db \<Rightarrow> bool" where
  "store_ok d =
     (distinct (map rec_id d) \<and> list_all (\<lambda>r. rec_id r = compute_sha256 (rec_value r)) d)"

text \<open>The tables the service can reach from the empty table through its writing endpoints.\<close>

inductive reachable :: "db \<Rightarrow> bool" where
  empty: "reachable []"
| create: "reachable d \<Longrightarrow> create_string now req d = (res, d') \<Longrightarrow> reachable d'"
| delete: "reachable d \<Longrightarrow> delete_string i d = (res', d') \<Longrightarrow> reachable d'"

text \<open>
  The predicate semantics in the words of the specification: the conjunction of the
  present constraints, with both length bounds inclusive.
\<close>

definition evaluate :: "filters \<Rightarrow> string_record \<Rightarrow> bool" where
  "evaluate q r =
     (let p = rec_properties r
      in (case f_is_palindrome q of None \<Rightarrow> True | Some b \<Rightarrow> is_palindrome p = b)
       \<and> (case f_min_length q of None \<Rightarrow> True | Some m \<Rightarrow> m \<le> int (prop_length p))
       \<and> (case f_max_length q of None \<Rightarrow> True | Some m \<Rightarrow> int (prop_length p) \<le> m)
       \<and> (case f_word_count q of None \<Rightarrow> True | Some n \<Rightarrow> int (word_count p) = n)
       \<and> (case f_contains_character q of None \<Rightarrow> True
           | Some c \<Rightarrow> in_dict c (character_frequency_map p)))"

section \<open>Properties of the hash\<close>

lemma length_hex32: "length (hex32 w) = 8"
  by (simp add: hex32_def)

lemma hex_of_nibble_lower: "is_lower_hex_char (hex_of_nibble n)"
  by (cases n rule: hex_of_nibble.cases) (auto simp: is_lower_hex_char_def)

lemma list_all_hex32: "list_all is_lower_hex_char (hex32 w)"
  by (simp add: hex32_def hex_of_nibble_lower)

lemma length_hexdigest: "length (hexdigest hs) = 64"
  by (cases hs rule: hexdigest.cases) (simp add: length_hex32)

lemma list_all_hexdigest: "list_all is_lower_hex_char (hexdigest hs)"
  by (cases hs rule: hexdigest.cases) (simp add: list_all_hex32)

lemma length_compute_sha256: "length (compute_sha256 s) = 64"
  by (simp add: compute_sha256_def length_hexdigest)

lemma lower_hex_compute_sha256: "list_all is_lower_hex_char (compute_sha256 s)"
  by (simp add: compute_sha256_def list_all_hexdigest)

lemma lower_hex_is_hex_char: "is_lower_hex_char c \<Longrightarrow> is_hex_char c"
  by (auto simp: is_lower_hex_char_def is_hex_char_def code_point_def)

lemma is_sha256_hex_compute_sha256: "is_sha256_hex (compute_sha256 s)"
  using lower_hex_compute_sha256 [of s] lower_hex_is_hex_char
  by (auto simp: is_sha256_hex_def length_compute_sha256 list_all_iff)

section \<open>Properties of the analyzer\<close>

lemma sum_dict_set:
  "sum_list (map snd (dict_set d k (Suc (dict_get d k 0)))) = Suc (sum_list (map snd d))"
proof (induction d)
  case Nil
  show ?case by (simp add: dict_get_def)
next
  case (Cons p d)
  obtain k' n' where p: "p = (k', n')" by (cases p)
  show ?case
  proof (cases "k' = k")
    case True
    with p show ?thesis by (simp add: dict_get_def)
  next
    case False
    with p Cons show ?thesis by (simp add: dict_get_def)
  qed
qed

lemma sum_count_step:
  "sum_list (map snd (foldl (\<lambda>freq ch. dict_set freq ch (dict_get freq ch 0 + 1)) d s))
     = sum_list (map snd d) + length s"
  by (induction s arbitrary: d) (simp_all add: sum_dict_set)

lemma sum_count_chars: "sum_list (map snd (count_chars s)) = length s"
  using sum_count_step [of "[]" s] by (simp add: count_chars_def)

lemma keys_dict_set: "fst ` set (dict_set d k n) = insert k (fst ` set d)"
  by (induction d k n rule: dict_set.induct) auto

lemma keys_count_step:
  "fst ` set (foldl (\<lambda>freq ch. dict_set freq ch (dict_get freq ch 0 + 1)) d s)
     = fst ` set d \<union> set s"
  by (induction s arbitrary: d) (simp_all add: keys_dict_set)

lemma keys_count_chars: "fst ` set (count_chars s) = set s"
  using keys_count_step [of "[]" s] by (simp add: count_chars_def)

section \<open>Properties of the store\<close>

lemma find_None_iff_id: "db_get_by_id i d = None \<longleftrightarrow> i \<notin> rec_id ` set d"
  by (auto simp: db_get_by_id_def find_None_iff)

lemma db_get_by_id_Some: "db_get_by_id i d = Some r \<Longrightarrow> r \<in> set d \<and> rec_id r = i"
  by (auto simp: db_get_by_id_def find_Some_iff)

lemma db_get_by_value_Some: "db_get_by_value v d = Some r \<Longrightarrow> r \<in> set d \<and> rec_value r = v"
  by (auto simp: db_get_by_value_def find_Some_iff)

lemma db_get_by_value_None_iff: "db_get_by_value v d = None \<longleftrightarrow> v \<notin> rec_value ` set d"
  by (auto simp: db_get_by_value_def find_None_iff)

lemma sha256_hash_analyze: "sha256_hash (analyze_string v) = compute_sha256 v"
  by (simp add: analyze_string_def)

lemma create_string_duplicate:
  "db_get_by_id (compute_sha256 v) d \<noteq> None \<Longrightarrow>
   create_string now (Str v) d = (Inl DuplicateRecord, d)"
  by (auto simp: create_string_def sha256_hash_analyze Let_def)

lemma create_string_fresh:
  "db_get_by_id (compute_sha256 v) d = None \<Longrightarrow>
   create_string now (Str v) d = (Inr (stored_record now v), d @ [stored_record now v])"
  using find_None_iff_id [of "compute_sha256 v" d]
  by (simp add: create_string_def sha256_hash_analyze db_insert_def stored_record_def Let_def)

lemma create_string_cases:
  "create_string now (Str v) d = (Inl DuplicateRecord, d) \<and> db_get_by_id (compute_sha256 v) d \<noteq> None
   \<or> create_string now (Str v) d = (Inr (stored_record now v), d @ [stored_record now v])
      \<and> db_get_by_id (compute_sha256 v) d = None"
  using create_string_duplicate [of v d now] create_string_fresh [of v d now]
  by (cases "db_get_by_id (compute_sha256 v) d") simp_all

lemma store_ok_empty: "store_ok []"
  by (simp add: store_ok_def)

lemma store_ok_append:
  "store_ok d \<Longrightarrow> db_get_by_id (compute_sha256 v) d = None \<Longrightarrow>
   store_ok (d @ [stored_record now v])"
  by (auto simp: store_ok_def stored_record_def find_None_iff_id)

lemma store_ok_filter: "store_ok d \<Longrightarrow> store_ok (filter P d)"
  by (auto simp: store_ok_def list_all_iff distinct_map_filter)

lemma store_ok_create: "store_ok d \<Longrightarrow> create_string now req d = (res, d') \<Longrightarrow> store_ok d'"
proof (cases req)
  case (Str v)
  assume "store_ok d" "create_string now req d = (res, d')"
  with Str create_string_cases [of now v d] show ?thesis
    by (auto simp: store_ok_append)
next
  case NotStr
  assume "store_ok d" "create_string now req d = (res, d')"
  with NotStr show ?thesis by (simp add: create_string_def)
qed

lemma delete_string_store:
  "delete_string i d = (res, d') \<Longrightarrow> d' = d \<or> (\<exists>j. d' = filter (\<lambda>r. rec_id r \<noteq> j) d)"
  by (auto simp: delete_string_def db_delete_by_id_def split: if_splits option.splits)

lemma store_ok_delete: "store_ok d \<Longrightarrow> delete_string i d = (res, d') \<Longrightarrow> store_ok d'"
  using delete_string_store [of i d res d'] store_ok_filter by auto

lemma reachable_store_ok: "reachable d \<Longrightarrow> store_ok d"
  by (induction rule: reachable.induct)
     (auto intro: store_ok_empty store_ok_create store_ok_delete)

lemma find_app:
  "find P (xs @ ys) = (case find P xs of None \<Rightarrow> find P ys | Some x \<Rightarrow> Some x)"
  by (induction xs) simp_all

lemma db_get_by_id_append:
  "db_get_by_id i (d @ e) = (case db_get_by_id i d of None \<Rightarrow> db_get_by_id i e | Some r \<Rightarrow> Some r)"
  by (simp add: db_get_by_id_def find_app split: option.split)

lemma db_get_by_value_append:
  "db_get_by_value v (d @ e) =
     (case db_get_by_value v d of None \<Rightarrow> db_get_by_value v e | Some r \<Rightarrow> Some r)"
  by (simp add: db_get_by_value_def find_app split: option.split)

section \<open>The claims\<close>

text \<open>
  C4. For every text \<open>v\<close>, the properties \<^verbatim>\<open>analyze_string\<close> computes satisfy: the number
  of distinct characters is at most the length; the values of the frequency dictionary
  add up to the length; and \<^verbatim>\<open>sha256_hash\<close> is the lower-case hexadecimal SHA-256 of the
  UTF-8 encoding of \<open>v\<close> (64 digits), which is the id under which a successful
  \<^verbatim>\<open>create_string\<close> stores, and returns, the record.
\<close>

theorem analyze_string_invariants:
  "unique_characters (analyze_string v) \<le> prop_length (analyze_string v)
   \<and> prop_length (analyze_string v) = length v
   \<and> sum_list (map snd (character_frequency_map (analyze_string v)))
       = prop_length (analyze_string v)
   \<and> sha256_hash (analyze_string v) = hexdigest (sha256 (encode_utf8 v))
   \<and> length (sha256_hash (analyze_string v)) = 64
   \<and> list_all is_lower_hex_char (sha256_hash (analyze_string v))
   \<and> (create_string now (Str v) d = (Inr r, d') \<longrightarrow>
        rec_id r = sha256_hash (analyze_string v)
        \<and> rec_properties r = analyze_string v
        \<and> db_get_by_id (sha256_hash (analyze_string v)) d' = Some r)"
proof -
  have 1: "unique_characters (analyze_string v) \<le> prop_length (analyze_string v)"
    by (simp add: analyze_string_def card_length)
  have 2: "sum_list (map snd (character_frequency_map (analyze_string v)))
       = prop_length (analyze_string v)"
    by (simp add: analyze_string_def sum_count_chars)
  have 3: "sha256_hash (analyze_string v) = hexdigest (sha256 (encode_utf8 v))"
    by (simp add: sha256_hash_analyze compute_sha256_def)
  have 4: "rec_id r = sha256_hash (analyze_string v) \<and> rec_properties r = analyze_string v
        \<and> db_get_by_id (sha256_hash (analyze_string v)) d' = Some r"
    if c: "create_string now (Str v) d = (Inr r, d')"
  proof -
    from c create_string_cases [of now v d]
    have r: "r = stored_record now v" and d': "d' = d @ [stored_record now v]"
      and n: "db_get_by_id (compute_sha256 v) d = None"
      by auto
    from n have "db_get_by_id (compute_sha256 v) d' = Some r"
      unfolding d' r by (simp add: db_get_by_id_append) (simp add: db_get_by_id_def stored_record_def)
    then show ?thesis by (simp add: r sha256_hash_analyze stored_record_def)
  qed
  have 5: "length (sha256_hash (analyze_string v)) = 64"
    by (simp add: sha256_hash_analyze length_compute_sha256)
  have 6: "list_all is_lower_hex_char (sha256_hash (analyze_string v))"
    by (simp add: sha256_hash_analyze lower_hex_compute_sha256)
  have 7: "prop_length (analyze_string v) = length v"
    by (simp add: analyze_string_def)
  from 1 2 3 4 5 6 7 show ?thesis by blast
qed

theorem analyze_string_invariants_witness:
  "create_string ''t'' (Str ''level'') []
     = (Inr (stored_record ''t'' ''level''), [stored_record ''t'' ''level''])
   \<and> rec_id (stored_record ''t'' ''level'') = sha256_hash (analyze_string ''level'')
   \<and> db_get_by_id (sha256_hash (analyze_string ''level'')) [stored_record ''t'' ''level'']
        = Some (stored_record ''t'' ''level'')
   \<and> unique_characters (analyze_string ''level'') \<le> prop_length (analyze_string ''level'')"
proof -
  have c: "create_string ''t'' (Str ''level'') []
     = (Inr (stored_record ''t'' ''level''), [stored_record ''t'' ''level''])"
    using create_string_fresh [of "''level''" "[]" "''t''"] by (simp add: db_get_by_id_def)
  from c analyze_string_invariants [of "''level''" "''t''" "[]" "stored_record ''t'' ''level''"
      "[stored_record ''t'' ''level'']"]
  show ?thesis by blast
qed

text \<open>
  C5. For every text \<open>v\<close>, \<^verbatim>\<open>is_palindrome\<close> holds exactly when the lower-cased \<open>v\<close> is
  its own reverse; nothing else is normalised: "level" is a palindrome and
  "a man a plan" is not.
\<close>

theorem is_palindrome_iff:
  "(is_palindrome (analyze_string v) \<longleftrightarrow> lower v = rev (lower v))
   \<and> is_palindrome (analyze_string ''level'')
   \<and> \<not> is_palindrome (analyze_string ''a man a plan'')"
  by (simp add: analyze_string_def lower_def lower_char_def code_point_def)

theorem is_palindrome_iff_witness:
  "is_palindrome (analyze_string ''Level'') \<and> lower ''Level'' = ''level''"
  using is_palindrome_iff [of "''Level''"]
  by (simp add: lower_def lower_char_def code_point_def char_of_def bit_0)

lemma store_ok_value_id:
  "store_ok d \<Longrightarrow> r \<in> set d \<Longrightarrow> rec_value r = v \<Longrightarrow> rec_id r = compute_sha256 v"
  by (auto simp: store_ok_def list_all_iff)

lemma store_ok_no_value:
  assumes "store_ok d" and "db_get_by_id (compute_sha256 v) d = None"
  shows "db_get_by_value v d = None"
proof -
  have "rec_value r \<noteq> v" if "r \<in> set d" for r
  proof
    assume "rec_value r = v"
    with assms(1) that have "rec_id r = compute_sha256 v"
      by (rule store_ok_value_id)
    with that have "compute_sha256 v \<in> rec_id ` set d"
      by force
    with assms(2) show False
      by (simp add: find_None_iff_id)
  qed
  then show ?thesis
    by (auto simp: db_get_by_value_None_iff)
qed

lemma not_hex_level: "\<not> is_sha256_hex ''level''"
  by (simp add: is_sha256_hex_def)

text \<open>
  C1. For every text \<open>v\<close>: when a record with id \<open>sha256(v)\<close> is stored,
  \<^verbatim>\<open>create_string\<close> fails with DuplicateRecord (409) and returns the table as it was.
  Creating "level" twice on a table without it: the first call succeeds with
  \<^verbatim>\<open>is_palindrome\<close> true and \<^verbatim>\<open>length\<close> 5, the second fails with DuplicateRecord and
  changes nothing, and the enumeration then holds exactly one record with value "level".
\<close>

theorem create_string_dedup:
  "(db_get_by_id (compute_sha256 v) d \<noteq> None \<longrightarrow>
      create_string now (Str v) d = (Inl DuplicateRecord, d))
   \<and> (store_ok d \<and> db_get_by_id (compute_sha256 ''level'') d = None \<longrightarrow>
        (\<exists>r d1.
           create_string t1 (Str ''level'') d = (Inr r, d1)
           \<and> is_palindrome (rec_properties r) \<and> prop_length (rec_properties r) = 5
           \<and> create_string t2 (Str ''level'') d1 = (Inl DuplicateRecord, d1)
           \<and> filter (\<lambda>x. rec_value x = ''level'') (db_query_all d1) = [r]))"
proof (intro conjI impI)
  assume "db_get_by_id (compute_sha256 v) d \<noteq> None"
  then show "create_string now (Str v) d = (Inl DuplicateRecord, d)"
    by (rule create_string_duplicate)
next
  assume a: "store_ok d \<and> db_get_by_id (compute_sha256 ''level'') d = None"
  let ?r = "stored_record t1 ''level''"
  let ?d1 = "d @ [?r]"
  from a have c1: "create_string t1 (Str ''level'') d = (Inr ?r, ?d1)"
    by (simp add: create_string_fresh)
  have p: "is_palindrome (rec_properties ?r) \<and> prop_length (rec_properties ?r) = 5"
    by (simp add: stored_record_def analyze_string_def lower_def lower_char_def code_point_def)
  have "db_get_by_id (compute_sha256 ''level'') ?d1 \<noteq> None"
    by (simp add: db_get_by_id_append split: option.split)
       (simp add: db_get_by_id_def stored_record_def)
  then have c2: "create_string t2 (Str ''level'') ?d1 = (Inl DuplicateRecord, ?d1)"
    by (rule create_string_duplicate)
  from a have "db_get_by_value ''level'' d = None"
    by (simp add: store_ok_no_value)
  then have "filter (\<lambda>x. rec_value x = ''level'') d = []"
    by (force simp: db_get_by_value_None_iff filter_empty_conv)
  then have f: "filter (\<lambda>x. rec_value x = ''level'') (db_query_all ?d1) = [?r]"
    by (simp add: db_query_all_def stored_record_def)
  from c1 p c2 f
  show "\<exists>r d1.
           create_string t1 (Str ''level'') d = (Inr r, d1)
           \<and> is_palindrome (rec_properties r) \<and> prop_length (rec_properties r) = 5
           \<and> create_string t2 (Str ''level'') d1 = (Inl DuplicateRecord, d1)
           \<and> filter (\<lambda>x. rec_value x = ''level'') (db_query_all d1) = [r]"
    by blast
qed

theorem create_string_dedup_witness:
  "store_ok [] \<and> db_get_by_id (compute_sha256 ''level'') [] = None
   \<and> (\<exists>r d1.
           create_string ''t1'' (Str ''level'') [] = (Inr r, d1)
           \<and> is_palindrome (rec_properties r) \<and> prop_length (rec_properties r) = 5
           \<and> create_string ''t2'' (Str ''level'') d1 = (Inl DuplicateRecord, d1)
           \<and> filter (\<lambda>x. rec_value x = ''level'') (db_query_all d1) = [r])
   \<and> create_string ''t3'' (Str ''level'') [stored_record ''t1'' ''level'']
        = (Inl DuplicateRecord, [stored_record ''t1'' ''level''])"
proof -
  have h: "store_ok [] \<and> db_get_by_id (compute_sha256 ''level'') [] = None"
    by (simp add: store_ok_empty db_get_by_id_def)
  have g: "db_get_by_id (compute_sha256 ''level'') [stored_record ''t1'' ''level''] \<noteq> None"
    by (simp add: db_get_by_id_def stored_record_def)
  from h g create_string_dedup [of "''level''" "[stored_record ''t1'' ''level'']" "''t3''"]
    create_string_dedup [of "''level''" "[]" "''t3''" "''t1''" "''t2''"]
  show ?thesis by blast
qed

text \<open>
  C6. On a table that satisfies the invariant, after \<^verbatim>\<open>create_string\<close> has succeeded
  for "level", \<^verbatim>\<open>get_string\<close> returns the created record both for "level" and for its
  id. An identifier of 64 hexadecimal characters is looked up as an id, any other
  identifier as a value.
\<close>

theorem get_string_round_trip:
  "(store_ok d \<and> create_string now (Str ''level'') d = (Inr r, d') \<longrightarrow>
      get_string ''level'' d' = Inr r \<and> get_string (rec_id r) d' = Inr r
      \<and> rec_id r = compute_sha256 ''level'' \<and> is_sha256_hex (rec_id r))
   \<and> (is_sha256_hex i \<longrightarrow>
        get_string i e = (case db_get_by_id i e of None \<Rightarrow> Inl NotFound | Some x \<Rightarrow> Inr x))
   \<and> (\<not> is_sha256_hex i \<longrightarrow>
        get_string i e = (case db_get_by_value i e of None \<Rightarrow> Inl NotFound | Some x \<Rightarrow> Inr x))"
proof -
  have A: "get_string ''level'' d' = Inr r \<and> get_string (rec_id r) d' = Inr r
      \<and> rec_id r = compute_sha256 ''level'' \<and> is_sha256_hex (rec_id r)"
    if a: "store_ok d \<and> create_string now (Str ''level'') d = (Inr r, d')"
  proof -
  from a create_string_cases [of now "''level''" d]
  have r: "r = stored_record now ''level''" and d': "d' = d @ [r]"
    and n: "db_get_by_id (compute_sha256 ''level'') d = None"
    by auto
  have i: "rec_id r = compute_sha256 ''level''"
    by (simp add: r stored_record_def)
  have v: "rec_value r = ''level''"
    by (simp add: r stored_record_def)
  from a n have nv: "db_get_by_value ''level'' d = None"
    by (simp add: store_ok_no_value)
  from nv v have 1: "get_string ''level'' d' = Inr r"
    by (simp add: get_string_def not_hex_level d' db_get_by_value_append)
       (simp add: db_get_by_value_def)
  from n i have 2: "get_string (rec_id r) d' = Inr r"
    by (simp add: get_string_def is_sha256_hex_compute_sha256 d' db_get_by_id_append)
       (simp add: db_get_by_id_def)
  from 1 2 i show ?thesis
    by (simp add: is_sha256_hex_compute_sha256)
  qed
  have B: "get_string i e = (case db_get_by_id i e of None \<Rightarrow> Inl NotFound | Some x \<Rightarrow> Inr x)"
    if "is_sha256_hex i"
    using that by (simp add: get_string_def)
  have C: "get_string i e = (case db_get_by_value i e of None \<Rightarrow> Inl NotFound | Some x \<Rightarrow> Inr x)"
    if "\<not> is_sha256_hex i"
    using that by (simp add: get_string_def)
  from A B C show ?thesis by blast
qed

theorem get_string_round_trip_witness:
  "store_ok []
   \<and> create_string ''t'' (Str ''level'') []
       = (Inr (stored_record ''t'' ''level''), [stored_record ''t'' ''level''])
   \<and> get_string ''level'' [stored_record ''t'' ''level''] = Inr (stored_record ''t'' ''level'')
   \<and> get_string (rec_id (stored_record ''t'' ''level'')) [stored_record ''t'' ''level'']
       = Inr (stored_record ''t'' ''level'')
   \<and> \<not> is_sha256_hex ''level''
   \<and> get_string ''noon'' [] = Inl NotFound"
proof -
  have c: "create_string ''t'' (Str ''level'') []
       = (Inr (stored_record ''t'' ''level''), [stored_record ''t'' ''level''])"
    by (simp add: create_string_fresh db_get_by_id_def)
  have n: "\<not> is_sha256_hex ''noon''"
    by (simp add: is_sha256_hex_def)
  have g: "get_string ''noon'' [] = Inl NotFound"
    using n get_string_round_trip [of "[]" "''t''" "stored_record ''t'' ''level''"
        "[stored_record ''t'' ''level'']" "''noon''" "[]"]
    by (simp add: db_get_by_value_def)
  from c store_ok_empty not_hex_level g
    get_string_round_trip [of "[]" "''t''" "stored_record ''t'' ''level''"
        "[stored_record ''t'' ''level'']" "''noon''" "[]"]
  show ?thesis by blast
qed

lemma db_get_by_id_filter_neq: "db_get_by_id i (filter (\<lambda>r. rec_id r \<noteq> i) d) = None"
  by (auto simp: find_None_iff_id)

lemma delete_string_by_id:
  assumes "is_sha256_hex i"
  shows "delete_string i d =
     (if i \<in> rec_id ` set d then (Inr (), filter (\<lambda>r. rec_id r \<noteq> i) d)
      else (Inl NotFound, d))"
proof -
  have "filter (\<lambda>r. rec_id r \<noteq> i) d = d" if "i \<notin> rec_id ` set d"
    using that by (induction d) auto
  moreover have "filter (\<lambda>r. rec_id r = i) d = [] \<longleftrightarrow> i \<notin> rec_id ` set d"
    by (auto simp: filter_empty_conv)
  ultimately show ?thesis
    using assms by (simp add: delete_string_def db_delete_by_id_def)
qed

lemma delete_string_by_value:
  assumes "\<not> is_sha256_hex v"
  shows "delete_string v d =
     (case db_get_by_value v d of
        None \<Rightarrow> (Inl NotFound, d)
      | Some item \<Rightarrow> (Inr (), filter (\<lambda>r. rec_id r \<noteq> rec_id item) d))"
proof (cases "db_get_by_value v d")
  case None
  with assms show ?thesis by (simp add: delete_string_def)
next
  case (Some item)
  then have "item \<in> set d"
    by (simp add: db_get_by_value_Some)
  then have "filter (\<lambda>r. rec_id r = rec_id item) d \<noteq> []"
    by (auto simp: filter_empty_conv)
  with Some assms show ?thesis
    by (simp add: delete_string_def db_delete_by_id_def)
qed

text \<open>
  C7. On a table that satisfies the invariant, after \<^verbatim>\<open>delete_string\<close> has succeeded for
  "level", \<^verbatim>\<open>get_string\<close> answers NotFound (404) both for "level" and for its id. For
  every identifier that \<^verbatim>\<open>get_string\<close> does not resolve, \<^verbatim>\<open>delete_string\<close> answers
  NotFound and leaves the table as it was.
\<close>

theorem delete_then_get:
  "(store_ok d \<and> delete_string ''level'' d = (Inr (), d') \<longrightarrow>
      get_string ''level'' d' = Inl NotFound
      \<and> get_string (compute_sha256 ''level'') d' = Inl NotFound)
   \<and> (get_string i e = Inl NotFound \<longrightarrow> delete_string i e = (Inl NotFound, e))"
proof -
  have A: "get_string ''level'' d' = Inl NotFound
      \<and> get_string (compute_sha256 ''level'') d' = Inl NotFound"
    if a: "store_ok d \<and> delete_string ''level'' d = (Inr (), d')"
  proof -
    from a obtain item where item: "db_get_by_value ''level'' d = Some item"
      and d': "d' = filter (\<lambda>r. rec_id r \<noteq> rec_id item) d"
      by (auto simp: delete_string_by_value not_hex_level split: option.splits)
    from item have "item \<in> set d" and "rec_value item = ''level''"
      by (simp_all add: db_get_by_value_Some)
    with a have i: "rec_id item = compute_sha256 ''level''"
      using store_ok_value_id [of d item "''level''"] by blast
    have n: "db_get_by_id (compute_sha256 ''level'') d' = None"
      by (simp add: d' i db_get_by_id_filter_neq)
    from a have "store_ok d'"
      by (simp add: d' store_ok_filter)
    then have "db_get_by_value ''level'' d' = None"
      using n by (rule store_ok_no_value)
    with n show ?thesis
      by (simp add: get_string_def not_hex_level is_sha256_hex_compute_sha256)
  qed
  have B: "delete_string i e = (Inl NotFound, e)" if g: "get_string i e = Inl NotFound"
  proof (cases "is_sha256_hex i")
    case True
    with g have "db_get_by_id i e = None"
      by (simp add: get_string_def split: option.splits)
    with True show ?thesis
      by (simp add: delete_string_by_id find_None_iff_id)
  next
    case False
    with g have "db_get_by_value i e = None"
      by (simp add: get_string_def split: option.splits)
    with False show ?thesis
      by (simp add: delete_string_by_value)
  qed
  from A B show ?thesis by blast
qed

theorem delete_then_get_witness:
  "store_ok [stored_record ''t'' ''level'']
   \<and> delete_string ''level'' [stored_record ''t'' ''level''] = (Inr (), [])
   \<and> get_string ''level'' [] = Inl NotFound
   \<and> get_string (compute_sha256 ''level'') [] = Inl NotFound
   \<and> delete_string ''level'' [] = (Inl NotFound, [])"
proof -
  have s: "store_ok [stored_record ''t'' ''level'']"
    using store_ok_append [of "[]" "''level''" "''t''"]
    by (simp add: store_ok_empty db_get_by_id_def)
  have d: "delete_string ''level'' [stored_record ''t'' ''level''] = (Inr (), [])"
    by (simp add: delete_string_by_value not_hex_level db_get_by_value_def stored_record_def)
  from s d delete_then_get [of "[stored_record ''t'' ''level'']" "[]" "''level''" "[]"]
  show ?thesis by blast
qed

text \<open>
  C10. For every stored record whose value has the shape of an id (64 hexadecimal
  characters) and is not the id of any stored record, \<^verbatim>\<open>get_string\<close> and
  \<^verbatim>\<open>delete_string\<close> on that value answer NotFound and the record stays stored:
  such an identifier is only ever looked up as an id, although the lookup by value
  would find the record.
\<close>

theorem hex_shaped_value_not_found:
  "r \<in> set d \<and> is_sha256_hex (rec_value r) \<and> rec_value r \<notin> rec_id ` set d \<longrightarrow>
     get_string (rec_value r) d = Inl NotFound
     \<and> delete_string (rec_value r) d = (Inl NotFound, d)
     \<and> db_get_by_value (rec_value r) d \<noteq> None"
proof
  assume a: "r \<in> set d \<and> is_sha256_hex (rec_value r) \<and> rec_value r \<notin> rec_id ` set d"
  then have "db_get_by_id (rec_value r) d = None"
    by (simp add: find_None_iff_id)
  with a have 1: "get_string (rec_value r) d = Inl NotFound"
    by (simp add: get_string_def)
  from a have 2: "delete_string (rec_value r) d = (Inl NotFound, d)"
    by (simp add: delete_string_by_id)
  from a have 3: "db_get_by_value (rec_value r) d \<noteq> None"
    by (auto simp: db_get_by_value_None_iff)
  from 1 2 3 show "get_string (rec_value r) d = Inl NotFound
     \<and> delete_string (rec_value r) d = (Inl NotFound, d)
     \<and> db_get_by_value (rec_value r) d \<noteq> None"
    by simp
qed

theorem hex_shaped_value_not_found_witness:
  "create_string ''t'' (Str (replicate 64 CHR ''A'')) []
     = (Inr (stored_record ''t'' (replicate 64 CHR ''A'')),
        [stored_record ''t'' (replicate 64 CHR ''A'')])
   \<and> is_sha256_hex (replicate 64 CHR ''A'')
   \<and> get_string (replicate 64 CHR ''A'') [stored_record ''t'' (replicate 64 CHR ''A'')]
        = Inl NotFound
   \<and> delete_string (replicate 64 CHR ''A'') [stored_record ''t'' (replicate 64 CHR ''A'')]
        = (Inl NotFound, [stored_record ''t'' (replicate 64 CHR ''A'')])"
proof -
  let ?v = "replicate 64 CHR ''A''"
  let ?r = "stored_record ''t'' ?v"
  have c: "create_string ''t'' (Str ?v) [] = (Inr ?r, [?r])"
    by (simp add: create_string_fresh db_get_by_id_def)
  have h: "is_sha256_hex ?v"
    by (simp add: is_sha256_hex_def is_hex_char_def code_point_def list_all_iff)
  have "\<not> is_lower_hex_char CHR ''A''"
    by (simp add: is_lower_hex_char_def)
  then have "\<not> list_all is_lower_hex_char ?v"
    by (simp add: list_all_iff)
  with lower_hex_compute_sha256 [of ?v] have ne: "compute_sha256 ?v \<noteq> ?v"
    by auto
  have v: "rec_value ?r = ?v" and i: "rec_id ?r = compute_sha256 ?v"
    by (simp_all add: stored_record_def)
  from ne v i have p: "?r \<in> set [?r] \<and> is_sha256_hex (rec_value ?r)
      \<and> rec_value ?r \<notin> rec_id ` set [?r]"
    using h by auto
  from hex_shaped_value_not_found [of ?r "[?r]"] p v
  have "get_string ?v [?r] = Inl NotFound \<and> delete_string ?v [?r] = (Inl NotFound, [?r])"
    by simp
  with c h show ?thesis by blast
qed

end
